theory Spec2Isabelle
  imports Complex_Main "HOL-Library.Word"
begin

unbundle bit_operations_syntax

section \<open>Bytes, errors and module-level settings\<close>

type_synonym byte = "8 word"
type_synonym bytes = "byte list"

text \<open>
  Every exception the modelled code can raise is a value. \<open>HTTPException\<close> and
  \<open>AuthError\<close> carry the status code and the detail string of the source;
  \<open>ValueError\<close> is what the cipher library raises for a key or IV of the wrong
  size and for data that is not a whole number of blocks; \<open>IndexError\<close> is Python's
  error for \<open>b""[-1]\<close>; \<open>ClientError\<close> stands for the blob backend's
  \<open>BotoCoreError\<close>/\<open>ClientError\<close>; \<open>PydanticValidationError\<close> is the error a
  schema of \<open>schemas.py\<close> raises when a field breaks its constraint;
  \<open>DatabaseError\<close> and \<open>BrokerError\<close> are faults of the database commit and of
  the task queue; \<open>AttributeError\<close> is Python's error for reading an attribute an
  object does not have.
\<close>

datatype error =
    HTTPException nat string
  | AuthError nat string
  | ValueError
  | IndexError
  | ClientError
  | PydanticValidationError
  | DatabaseError
  | BrokerError
  | AttributeError

definition encode_utf8 :: "string \<Rightarrow> bytes" where
  "encode_utf8 s = map (\<lambda>c. of_nat (of_char c)) s"

text \<open>
  \<open>storage.py\<close> reads \<open>AES_KEY\<close> and \<open>AES_IV\<close> once, at import, from the
  environment; every call of \<open>encrypt_bytes\<close> and \<open>decrypt_bytes\<close> uses the same
  two values. The record holds them; \<open>default_settings\<close> are the fallback strings
  of the source, used when the environment sets nothing.
\<close>

record settings =
  AES_KEY :: bytes
  AES_IV :: bytes

definition default_settings :: settings where
  "default_settings =
     \<lparr> AES_KEY = encode_utf8 ''THIS_IS_A_DEMO_KEY_CHANGE_ME_32BYTES!!'',
       AES_IV = encode_utf8 ''THIS_IS_A_DEMO_IV_16BYTES'' \<rparr>"

section \<open>The cipher library: AES in CBC mode\<close>

text \<open>
  The AES block permutation belongs to the \<open>cryptography\<close> package, not to this
  repository, so it is a parameter: a pair of functions from a key and a 16-byte block
  to a 16-byte block. \<open>aes_like\<close> says what the library guarantees of them: blocks
  stay 16 bytes long and decryption undoes encryption under the same key.
\<close>

record block_cipher =
  block_encrypt :: "bytes \<Rightarrow> bytes \<Rightarrow> bytes"
  block_decrypt :: "bytes \<Rightarrow> bytes \<Rightarrow> bytes"

definition aes_like :: "block_cipher \<Rightarrow> bool" where
  "aes_like c =
     (\<forall>k b. length b = 16 \<longrightarrow>
        length (block_encrypt c k b) = 16 \<and>
        length (block_decrypt c k b) = 16 \<and>
        block_decrypt c k (block_encrypt c k b) = b)"

definition xor_bytes :: "bytes \<Rightarrow> bytes \<Rightarrow> bytes" where
  "xor_bytes xs ys = map2 (\<lambda>x y. x XOR y) xs ys"

primrec nblocks :: "nat \<Rightarrow> bytes \<Rightarrow> bytes list" where
  "nblocks 0 xs = []"
| "nblocks (Suc n) xs = take 16 xs # nblocks n (drop 16 xs)"

definition blocks :: "bytes \<Rightarrow> bytes list" where
  "blocks xs = nblocks (length xs div 16) xs"

fun cbc_encrypt_blocks :: "(bytes \<Rightarrow> bytes) \<Rightarrow> bytes \<Rightarrow> bytes list \<Rightarrow> bytes list" where
  "cbc_encrypt_blocks E prev [] = []"
| "cbc_encrypt_blocks E prev (p # ps) =
     (let c = E (xor_bytes p prev) in c # cbc_encrypt_blocks E c ps)"

fun cbc_decrypt_blocks :: "(bytes \<Rightarrow> bytes) \<Rightarrow> bytes \<Rightarrow> bytes list \<Rightarrow> bytes list" where
  "cbc_decrypt_blocks D prev [] = []"
| "cbc_decrypt_blocks D prev (c # cs) =
     xor_bytes (D c) prev # cbc_decrypt_blocks D c cs"

text \<open>
  \<open>Cipher(algorithms.AES(key), modes.CBC(iv))\<close>: the library accepts an AES key of
  16, 24 or 32 bytes and a CBC initialization vector of exactly one block, and raises
  \<open>ValueError\<close> otherwise.
\<close>

definition Cipher :: "bytes \<Rightarrow> bytes \<Rightarrow> error + unit" where
  "Cipher key iv =
     (if length key \<noteq> 16 \<and> length key \<noteq> 24 \<and> length key \<noteq> 32 then Inl ValueError
      else if length iv \<noteq> 16 then Inl ValueError
      else Inr ())"

text \<open>
  \<open>encryptor.update(data) + encryptor.finalize()\<close> and the same of a decryptor:
  with no padder attached, \<open>finalize\<close> raises \<open>ValueError\<close> when the data is not a
  multiple of the block length.
\<close>

definition encryptor_update_finalize :: "block_cipher \<Rightarrow> bytes \<Rightarrow> bytes \<Rightarrow> bytes \<Rightarrow> error + bytes" where
  "encryptor_update_finalize c key iv data =
     (if length data mod 16 \<noteq> 0 then Inl ValueError
      else Inr (concat (cbc_encrypt_blocks (block_encrypt c key) iv (blocks data))))"

definition decryptor_update_finalize :: "block_cipher \<Rightarrow> bytes \<Rightarrow> bytes \<Rightarrow> bytes \<Rightarrow> error + bytes" where
  "decryptor_update_finalize c key iv data =
     (if length data mod 16 \<noteq> 0 then Inl ValueError
      else Inr (concat (cbc_decrypt_blocks (block_decrypt c key) iv (blocks data))))"

section \<open>storage.py\<close>

definition SUPPORTED_AUDIO_FORMATS :: "string list" where
  "SUPPORTED_AUDIO_FORMATS = [''wav'', ''mp3'', ''flac'']"

definition get_supported_audio_formats :: "string list" where
  "get_supported_audio_formats = SUPPORTED_AUDIO_FORMATS"

definition encrypt_bytes :: "block_cipher \<Rightarrow> settings \<Rightarrow> bytes \<Rightarrow> error + bytes" where
  "encrypt_bytes c cfg data =
     (case Cipher (AES_KEY cfg) (AES_IV cfg) of
        Inl e \<Rightarrow> Inl e
      | Inr _ \<Rightarrow>
          (let pad_len = 16 - (length data mod 16);
               padded_data = data @ replicate pad_len (of_nat pad_len)
           in encryptor_update_finalize c (AES_KEY cfg) (AES_IV cfg) padded_data))"

text \<open>
  Python's \<open>decrypted[:-pad_len]\<close>: for \<open>pad_len = 0\<close> the slice is
  \<open>decrypted[:0]\<close>, empty; for a \<open>pad_len\<close> beyond the length it is empty too.
\<close>

definition slice_to_neg :: "'a list \<Rightarrow> nat \<Rightarrow> 'a list" where
  "slice_to_neg xs n = (if n = 0 then [] else take (length xs - n) xs)"

definition decrypt_bytes :: "block_cipher \<Rightarrow> settings \<Rightarrow> bytes \<Rightarrow> error + bytes" where
  "decrypt_bytes c cfg data =
     (case Cipher (AES_KEY cfg) (AES_IV cfg) of
        Inl e \<Rightarrow> Inl e
      | Inr _ \<Rightarrow>
          (case decryptor_update_finalize c (AES_KEY cfg) (AES_IV cfg) data of
             Inl e \<Rightarrow> Inl e
           | Inr decrypted \<Rightarrow>
               (if decrypted = [] then Inl IndexError
                else let pad_len = unat (last decrypted)
                     in Inr (slice_to_neg decrypted pad_len))))"

text \<open>
  The blob backend (S3/MinIO) is a map from object keys to stored objects. Whether a
  call to it, to the database commit or to the task broker raises is decided outside the
  program; \<open>faults\<close> carries that decision into each operation.
\<close>

record s3_object =
  Body :: bytes
  ContentType :: string

type_synonym bucket = "string \<rightharpoonup> s3_object"

record faults =
  s3_fault :: bool
  db_fault :: bool
  broker_fault :: bool

definition store_encrypted_audio_file ::
  "block_cipher \<Rightarrow> settings \<Rightarrow> faults \<Rightarrow> string \<Rightarrow> bytes \<Rightarrow> string \<Rightarrow> bucket \<Rightarrow> error + bucket" where
  "store_encrypted_audio_file c cfg fl object_key file_bytes content_type objs =
     (case encrypt_bytes c cfg file_bytes of
        Inl e \<Rightarrow> Inl e
      | Inr encrypted_bytes \<Rightarrow>
          (if s3_fault fl then Inl ClientError
           else Inr (objs(object_key \<mapsto> \<lparr> Body = encrypted_bytes, ContentType = content_type \<rparr>))))"

definition retrieve_encrypted_audio_file ::
  "block_cipher \<Rightarrow> settings \<Rightarrow> faults \<Rightarrow> string \<Rightarrow> bucket \<Rightarrow> error + bytes" where
  "retrieve_encrypted_audio_file c cfg fl object_key objs =
     (if s3_fault fl then Inl ClientError
      else (case objs object_key of
              None \<Rightarrow> Inl ClientError
            | Some obj \<Rightarrow> decrypt_bytes c cfg (Body obj)))"

section \<open>models.py\<close>

text \<open>
  The three tables, with the columns the modelled code reads or writes. Times are
  seconds on some clock; \<open>accuracy\<close> is the float of the source, as a real.
\<close>

record user =
  u_id :: int
  email :: string
  is_active :: bool
  roles :: "string list"

record audio_file =
  af_id :: int
  uploader_id :: int
  species :: string
  location :: "string option"
  timestamp :: nat
  s3_object_key :: string
  original_filename :: string
  file_format :: string
  file_size :: nat
  is_encrypted :: bool
  quality_flag :: "string option"

record analysis_result =
  ar_id :: int
  audio_file_id :: int
  translation :: "string option"
  behavioral_tags :: "string list option"
  accuracy :: "real option"
  quality_issues :: "(string \<times> bool) list option"
  partial :: bool
  created_at :: nat

record database =
  users :: "user list"
  audio_files :: "audio_file list"
  analysis_results :: "analysis_result list"

definition get_user_by_id :: "int option \<Rightarrow> database option \<Rightarrow> user option" where
  "get_user_by_id user_id session =
     (case session of
        None \<Rightarrow> None
      | Some d \<Rightarrow> find (\<lambda>u. Some (u_id u) = user_id) (users d))"

definition get_audio_file_by_id :: "int \<Rightarrow> database option \<Rightarrow> audio_file option" where
  "get_audio_file_by_id fid session =
     (case session of
        None \<Rightarrow> None
      | Some d \<Rightarrow> find (\<lambda>a. af_id a = fid) (audio_files d))"

definition get_analysis_result_by_id :: "int \<Rightarrow> database option \<Rightarrow> analysis_result option" where
  "get_analysis_result_by_id result_id session =
     (case session of
        None \<Rightarrow> None
      | Some d \<Rightarrow> find (\<lambda>r. ar_id r = result_id) (analysis_results d))"

text \<open>
  \<open>db.add\<close>, \<open>db.commit\<close>, \<open>db.refresh\<close>: the row gets the next primary key
  (one more than the largest in the table). The commit raises on a database fault, and
  for \<open>audio_files\<close> when the unique column \<open>s3_object_key\<close> already holds the key.
\<close>

definition next_id :: "int list \<Rightarrow> int" where
  "next_id ids = fold max ids 0 + 1"

definition add_audio_file :: "faults \<Rightarrow> audio_file \<Rightarrow> database \<Rightarrow> error + audio_file \<times> database" where
  "add_audio_file fl a d =
     (if db_fault fl then Inl DatabaseError
      else if s3_object_key a \<in> set (map s3_object_key (audio_files d)) then Inl DatabaseError
      else (let row = a\<lparr> af_id := next_id (map af_id (audio_files d)) \<rparr>
            in Inr (row, d\<lparr> audio_files := audio_files d @ [row] \<rparr>)))"

definition add_analysis_result ::
  "faults \<Rightarrow> analysis_result \<Rightarrow> database \<Rightarrow> error + analysis_result \<times> database" where
  "add_analysis_result fl r d =
     (if db_fault fl then Inl DatabaseError
      else (let row = r\<lparr> ar_id := next_id (map ar_id (analysis_results d)) \<rparr>
            in Inr (row, d\<lparr> analysis_results := analysis_results d @ [row] \<rparr>)))"

text \<open>The state the handlers and the worker share.\<close>

record world =
  db :: database
  s3 :: bucket
  celery_queue :: "int list"

section \<open>schemas.py\<close>

definition MAX_FILE_SIZE :: nat where
  "MAX_FILE_SIZE = 50 * 1024 * 1024"

text \<open>
  Strings are ASCII text, one \<open>char\<close> per character. On such text \<open>str.lower()\<close>
  changes the letters A to Z and nothing else, and \<open>str.strip()\<close> removes the ten
  white-space characters of \<open>is_space\<close>.
\<close>

definition lower_char :: "char \<Rightarrow> char" where
  "lower_char ch =
     (let n = (of_char ch :: nat) in if 65 \<le> n \<and> n \<le> 90 then char_of (n + 32) else ch)"

definition lower :: "string \<Rightarrow> string" where
  "lower s = map lower_char s"

definition is_space :: "char \<Rightarrow> bool" where
  "is_space ch = ((of_char ch :: nat) \<in> {9, 10, 11, 12, 13, 28, 29, 30, 31, 32})"

text \<open>
  The pattern \<open>^(wav|mp3|flac)$\<close> of \<open>file_format\<close>, matched from the start of
  the string: \<open>$\<close> matches at the end and also just before one final newline.
\<close>

definition format_pattern :: "string \<Rightarrow> bool" where
  "format_pattern s =
     (s \<in> set [''wav'', ''mp3'', ''flac''] \<or>
      s \<in> set [''wav'' @ [CHR 0x0A], ''mp3'' @ [CHR 0x0A], ''flac'' @ [CHR 0x0A]])"

text \<open>
  \<open>AudioFileRead.from_orm\<close> checks the constraints of \<open>AudioFileBase\<close>: the
  lengths of \<open>species\<close>, \<open>location\<close> and \<open>original_filename\<close>, the species
  validator (not empty, not only white space), the format pattern after lower-casing and
  \<open>0 < file_size \<le> 50 MiB\<close>.
\<close>

definition AudioFileRead_from_orm :: "audio_file \<Rightarrow> error + audio_file" where
  "AudioFileRead_from_orm a =
     (if 128 < length (species a) then Inl PydanticValidationError
      else if list_all is_space (species a) then Inl PydanticValidationError
      else if (case location a of None \<Rightarrow> False | Some l \<Rightarrow> 256 < length l) then Inl PydanticValidationError
      else if 256 < length (original_filename a) then Inl PydanticValidationError
      else if \<not> format_pattern (lower (file_format a)) then Inl PydanticValidationError
      else if file_size a = 0 then Inl PydanticValidationError
      else if MAX_FILE_SIZE < file_size a then Inl PydanticValidationError
      else Inr (a\<lparr> file_format := lower (file_format a) \<rparr>))"

record audio_upload_response =
  aur_audio_file :: audio_file
  aur_message :: string

text \<open>
  \<open>AnalysisResultRead.from_orm\<close> checks \<open>0 \<le> accuracy \<le> 1\<close> when an accuracy
  is present. \<open>AnalysisResponse\<close> declares \<open>analysis_result: AnalysisResultRead\<close>,
  a required field that is not \<open>Optional\<close>: constructing it with \<open>None\<close> raises the
  schema's validation error.
\<close>

definition AnalysisResultRead_from_orm :: "analysis_result \<Rightarrow> error + analysis_result" where
  "AnalysisResultRead_from_orm r =
     (case accuracy r of
        None \<Rightarrow> Inr r
      | Some a \<Rightarrow> if 0 \<le> a \<and> a \<le> 1 then Inr r else Inl PydanticValidationError)"

record analysis_response =
  resp_analysis_result :: analysis_result
  resp_message :: string

definition AnalysisResponse :: "analysis_result option \<Rightarrow> string \<Rightarrow> error + analysis_response" where
  "AnalysisResponse res msg =
     (case res of
        None \<Rightarrow> Inl PydanticValidationError
      | Some r \<Rightarrow> Inr \<lparr> resp_analysis_result = r, resp_message = msg \<rparr>)"

section \<open>main.py: the status a client sees\<close>

text \<open>
  An \<open>HTTPException\<close> and an \<open>AuthError\<close> answer with their own status code;
  \<open>global_exception_handler\<close> turns every other exception into 500.
\<close>

definition status_code :: "error + 'a \<Rightarrow> nat" where
  "status_code r =
     (case r of
        Inr _ \<Rightarrow> 200
      | Inl (HTTPException n _) \<Rightarrow> n
      | Inl (AuthError n _) \<Rightarrow> n
      | Inl _ \<Rightarrow> 500)"

section \<open>auth.py\<close>

definition ROLE_RESEARCHER :: string where
  "ROLE_RESEARCHER = ''researcher''"

definition ROLE_ADMIN :: string where
  "ROLE_ADMIN = ''admin''"

text \<open>
  \<open>jwt.decode\<close> belongs to the \<open>jose\<close> package: a parameter that gives the
  payload of a token whose signature and expiry are good, and \<open>None\<close> where the
  library raises \<open>JWTError\<close>. \<open>p_roles\<close> is \<open>payload.get("roles", [])\<close>.
\<close>

record jwt_payload =
  p_user_id :: "int option"
  p_roles :: "string list"
  p_exp :: "int option"

record token_data =
  td_user_id :: "int option"
  td_roles :: "string list"
  td_exp :: "int option"

definition decode_access_token :: "(string \<Rightarrow> jwt_payload option) \<Rightarrow> string \<Rightarrow> error + token_data" where
  "decode_access_token jwt_decode token =
     (case jwt_decode token of
        None \<Rightarrow> Inl (AuthError 401 ''Could not validate credentials'')
      | Some payload \<Rightarrow>
          (if p_user_id payload = None \<or> p_roles payload = []
           then Inl (AuthError 401 ''Invalid authentication credentials'')
           else Inr \<lparr> td_user_id = p_user_id payload, td_roles = p_roles payload,
                      td_exp = p_exp payload \<rparr>))"

text \<open>
  \<open>get_current_user\<close>: the lookup is \<open>get_user_by_id(token_data.user_id)\<close>,
  called with no database session.
\<close>

definition get_current_user :: "(string \<Rightarrow> jwt_payload option) \<Rightarrow> string \<Rightarrow> error + user" where
  "get_current_user jwt_decode token =
     (case decode_access_token jwt_decode token of
        Inl e \<Rightarrow> Inl e
      | Inr token_data \<Rightarrow>
          (case get_user_by_id (td_user_id token_data) None of
             None \<Rightarrow> Inl (AuthError 401 ''User not found'')
           | Some user \<Rightarrow>
               (if \<not> is_active user then Inl (AuthError 401 ''Inactive user'')
                else Inr (user\<lparr> roles := td_roles token_data \<rparr>))))"

definition require_roles :: "string list \<Rightarrow> user \<Rightarrow> error + user" where
  "require_roles required_roles user =
     (if \<not> list_ex (\<lambda>role. role \<in> set (roles user)) required_roles
      then Inl (AuthError 403 ''Insufficient permissions'')
      else Inr user)"

definition get_current_active_researcher :: "user \<Rightarrow> error + user" where
  "get_current_active_researcher user =
     (if ROLE_RESEARCHER \<notin> set (roles user)
      then Inl (AuthError 403 ''Researcher access required'')
      else Inr user)"

definition get_current_admin :: "user \<Rightarrow> error + user" where
  "get_current_admin user =
     (if ROLE_ADMIN \<notin> set (roles user)
      then Inl (AuthError 403 ''Admin access required'')
      else Inr user)"

text \<open>
  \<open>Depends(get_current_active_researcher)\<close>, itself depending on
  \<open>get_current_user\<close>: what the framework runs before a researcher-gated handler.
\<close>

definition depends_researcher :: "(string \<Rightarrow> jwt_payload option) \<Rightarrow> string \<Rightarrow> error + user" where
  "depends_researcher jwt_decode token =
     (case get_current_user jwt_decode token of
        Inl e \<Rightarrow> Inl e
      | Inr user \<Rightarrow> get_current_active_researcher user)"

section \<open>routes/audio_upload.py and routes/species.py\<close>

definition SUPPORTED_SPECIES :: "string list" where
  "SUPPORTED_SPECIES =
     [''canis_lupus'', ''panthera_leo'', ''delphinus_delphis'', ''gorilla_gorilla'',
      ''elephas_maximus'']"

text \<open>The list of the same name in \<open>routes/species.py\<close>.\<close>

definition species_SUPPORTED_SPECIES :: "string list" where
  "species_SUPPORTED_SPECIES =
     [''canis_lupus'', ''panthera_leo'', ''delphinus_delphis'', ''gorilla_gorilla'',
      ''elephas_maximus'']"

definition quoted :: "string \<Rightarrow> string" where
  "quoted s = [CHR 0x27] @ s @ [CHR 0x27]"

definition validate_species :: "string \<Rightarrow> error + unit" where
  "validate_species sp =
     (if sp \<notin> set SUPPORTED_SPECIES
      then Inl (HTTPException 400 (''Species '' @ quoted sp @ '' is not supported.''))
      else Inr ())"

definition validate_audio_format :: "string \<Rightarrow> error + unit" where
  "validate_audio_format fmt =
     (if lower fmt \<notin> set get_supported_audio_formats
      then Inl (HTTPException 400 (''Audio format '' @ quoted fmt @ '' is not supported.''))
      else Inr ())"

text \<open>
  An uploaded file: its name, its content type, the attribute \<open>spool_max_size\<close>
  (\<open>None\<close> when the object has no such attribute) and the bytes \<open>file.read()\<close>
  returns.
\<close>

record upload_file =
  filename :: string
  content_type :: string
  spool_max_size :: "nat option"
  contents :: bytes

text \<open>\<open>validate_file_size\<close> is defined in the module; the upload handler does not call it.\<close>

definition validate_file_size :: "upload_file \<Rightarrow> error + unit" where
  "validate_file_size file =
     (case spool_max_size file of
        None \<Rightarrow> Inl AttributeError
      | Some n \<Rightarrow>
          (if n \<noteq> 0 \<and> MAX_FILE_SIZE < n
           then Inl (HTTPException 413 ''Audio file exceeds maximum allowed size (50MB).'')
           else Inr ()))"

text \<open>\<open>file.filename.split(".")[-1]\<close>: what follows the last dot, the whole name when it has none.\<close>

definition last_segment :: "string \<Rightarrow> string" where
  "last_segment s = rev (takeWhile (\<lambda>ch. ch \<noteq> CHR ''.'') (rev s))"

text \<open>
  The handler, given the user the dependency delivered. \<open>uuid\<close> is the text of
  \<open>uuid.uuid4()\<close> and \<open>now\<close> the clock, both drawn outside the program.
\<close>

definition upload_audio_file ::
  "block_cipher \<Rightarrow> settings \<Rightarrow> faults \<Rightarrow> string \<Rightarrow> nat \<Rightarrow>
   upload_file \<Rightarrow> string \<Rightarrow> string option \<Rightarrow> nat option \<Rightarrow> user \<Rightarrow> world \<Rightarrow>
   (error + audio_upload_response) \<times> world" where
  "upload_audio_file c cfg fl uuid now file sp loc ts current_user w =
     (case validate_species sp of
        Inl e \<Rightarrow> (Inl e, w)
      | Inr _ \<Rightarrow>
     (let fmt = lower (last_segment (filename file)) in
      case validate_audio_format fmt of
        Inl e \<Rightarrow> (Inl e, w)
      | Inr _ \<Rightarrow>
     (if MAX_FILE_SIZE < length (contents file)
      then (Inl (HTTPException 413 ''Audio file exceeds maximum allowed size (50MB).''), w)
      else
     (let object_key = ''audio/'' @ sp @ ''/'' @ uuid @ ''_'' @ filename file in
      case store_encrypted_audio_file c cfg fl object_key (contents file) (content_type file) (s3 w) of
        Inl e \<Rightarrow> (Inl (HTTPException 500 ''Failed to store audio file.''), w)
      | Inr objs \<Rightarrow>
     (let w1 = w\<lparr> s3 := objs \<rparr>;
          new_file =
            \<lparr> af_id = 0,
              uploader_id = u_id current_user,
              species = sp,
              location = loc,
              timestamp = (case ts of None \<Rightarrow> now | Some t \<Rightarrow> t),
              s3_object_key = object_key,
              original_filename = filename file,
              file_format = fmt,
              file_size = length (contents file),
              is_encrypted = True,
              quality_flag = None \<rparr>
      in case add_audio_file fl new_file (db w1) of
           Inl e \<Rightarrow> (Inl (HTTPException 500 ''Failed to store audio metadata.''), w1)
         | Inr (row, d) \<Rightarrow>
             (case AudioFileRead_from_orm row of
                Inl e \<Rightarrow> (Inl e, w1\<lparr> db := d \<rparr>)
              | Inr shown \<Rightarrow>
                  (Inr \<lparr> aur_audio_file = shown,
                         aur_message = ''Audio file uploaded successfully.'' \<rparr>,
                   w1\<lparr> db := d \<rparr>)))))))"

section \<open>ml_worker.py\<close>

text \<open>
  \<open>run_quality_checks\<close> draws its two flags with \<open>random.choice\<close>; the draws are
  arguments here.
\<close>

definition run_quality_checks :: "bool \<Rightarrow> bool \<Rightarrow> (string \<times> bool) list" where
  "run_quality_checks noise overlap = [(''noise'', noise), (''overlap'', overlap)]"

definition dict_get :: "(string \<times> bool) list \<Rightarrow> string \<Rightarrow> bool \<Rightarrow> bool" where
  "dict_get d k dflt = (case map_of d k of None \<Rightarrow> dflt | Some v \<Rightarrow> v)"

definition run_translation_and_tagging :: "bytes \<Rightarrow> string \<Rightarrow> string \<times> string list \<times> real" where
  "run_translation_and_tagging audio_bytes sp =
     (''Simulated translation for '' @ sp,
      (if sp = ''canis_lupus'' then [''mating_call'', ''territorial''] else [''aggression'']),
      85 / 100)"

text \<open>The list literal inside \<open>run_analysis_task\<close>.\<close>

definition worker_species :: "string list" where
  "worker_species =
     [''canis_lupus'', ''panthera_leo'', ''delphinus_delphis'', ''gorilla_gorilla'',
      ''elephas_maximus'']"

datatype task_return =
    TaskError string
  | TaskResult int bool "real option"

definition run_analysis_task ::
  "block_cipher \<Rightarrow> settings \<Rightarrow> faults \<Rightarrow> nat \<Rightarrow> bool \<Rightarrow> bool \<Rightarrow> int \<Rightarrow> world \<Rightarrow>
   task_return \<times> world" where
  "run_analysis_task c cfg fl now noise overlap fid w =
     (case find (\<lambda>a. af_id a = fid) (audio_files (db w)) of
        None \<Rightarrow> (TaskError ''Audio file not found'', w)
      | Some file \<Rightarrow>
     (case retrieve_encrypted_audio_file c cfg fl (s3_object_key file) (s3 w) of
        Inl e \<Rightarrow> (TaskError ''Failed to retrieve audio file'', w)
      | Inr audio_bytes \<Rightarrow>
     (let issues = run_quality_checks noise overlap;
          flagged = (dict_get issues ''noise'' False \<or> dict_get issues ''overlap'' False);
          outcome =
            (if species file \<notin> set worker_species then (None, None, None, True)
             else (case run_translation_and_tagging audio_bytes (species file) of
                     (t, tags, acc) \<Rightarrow> (Some t, Some tags, Some acc, flagged)))
      in case outcome of (tr, tags, acc, part) \<Rightarrow>
     (let new_result =
            \<lparr> ar_id = 0,
              audio_file_id = af_id file,
              translation = tr,
              behavioral_tags = tags,
              accuracy = acc,
              quality_issues = Some issues,
              partial = part,
              created_at = now \<rparr>
      in case add_analysis_result fl new_result (db w) of
           Inl e \<Rightarrow> (TaskError ''ML analysis failed'', w)
         | Inr (row, d) \<Rightarrow>
             (TaskResult (ar_id row) part acc, w\<lparr> db := d \<rparr>)))))"

section \<open>routes/audio_analysis.py\<close>

text \<open>
  The query of both handlers: the results of the file, newest first, \<open>.first()\<close>.
  Among results of equal \<open>created_at\<close> the database is free to choose; the model
  takes the one inserted first.
\<close>

definition newer :: "analysis_result \<Rightarrow> analysis_result \<Rightarrow> analysis_result" where
  "newer x best = (if created_at best < created_at x then x else best)"

definition latest_analysis_result :: "int \<Rightarrow> database \<Rightarrow> analysis_result option" where
  "latest_analysis_result fid d =
     (case filter (\<lambda>r. audio_file_id r = fid) (analysis_results d) of
        [] \<Rightarrow> None
      | r # rs \<Rightarrow> Some (fold newer rs r))"

text \<open>\<open>run_analysis_task.delay(audio_file_id)\<close> puts one task on the queue, or raises.\<close>

definition delay :: "faults \<Rightarrow> int \<Rightarrow> int list \<Rightarrow> error + int list" where
  "delay fl fid q = (if broker_fault fl then Inl BrokerError else Inr (q @ [fid]))"

definition trigger_audio_analysis ::
  "faults \<Rightarrow> int \<Rightarrow> user \<Rightarrow> world \<Rightarrow> (error + analysis_response) \<times> world" where
  "trigger_audio_analysis fl fid current_user w =
     (case get_audio_file_by_id fid (Some (db w)) of
        None \<Rightarrow> (Inl (HTTPException 404 ''Audio file not found.''), w)
      | Some file \<Rightarrow>
     (if uploader_id file \<noteq> u_id current_user
      then (Inl (HTTPException 403 ''You do not have access to this audio file.''), w)
      else
     (case latest_analysis_result fid (db w) of
        Some res \<Rightarrow>
          (case AnalysisResultRead_from_orm res of
             Inl e \<Rightarrow> (Inl e, w)
           | Inr shown \<Rightarrow> (AnalysisResponse (Some shown) ''Analysis already completed.'', w))
      | None \<Rightarrow>
          (case delay fl fid (celery_queue w) of
             Inl e \<Rightarrow> (Inl (HTTPException 500 ''Failed to trigger ML analysis.''), w)
           | Inr q \<Rightarrow>
               (AnalysisResponse None ''Analysis job started. Please check back for results.'',
                w\<lparr> celery_queue := q \<rparr>)))))"

definition get_audio_analysis_result :: "int \<Rightarrow> user \<Rightarrow> world \<Rightarrow> error + analysis_response" where
  "get_audio_analysis_result fid current_user w =
     (case get_audio_file_by_id fid (Some (db w)) of
        None \<Rightarrow> Inl (HTTPException 404 ''Audio file not found.'')
      | Some file \<Rightarrow>
     (if uploader_id file \<noteq> u_id current_user
      then Inl (HTTPException 403 ''You do not have access to this audio file.'')
      else
     (case latest_analysis_result fid (db w) of
        None \<Rightarrow> AnalysisResponse None ''Analysis not yet completed.''
      | Some res \<Rightarrow>
          (case AnalysisResultRead_from_orm res of
             Inl e \<Rightarrow> Inl e
           | Inr shown \<Rightarrow> AnalysisResponse (Some shown) ''Analysis completed.''))))"

section \<open>A small block cipher for concrete runs\<close>

text \<open>
  To run the model on concrete bytes the cipher parameter needs a value. This one adds
  the sum of the key bytes to every byte of the block; it has the two properties
  \<open>aes_like\<close> asks for. The theorems below hold for every \<open>aes_like\<close> cipher; this
  one only shows that their hypotheses can be met and runs the examples.
\<close>

definition shift_cipher :: block_cipher where
  "shift_cipher =
     \<lparr> block_encrypt = (\<lambda>k b. map (\<lambda>x. x + sum_list k) b),
       block_decrypt = (\<lambda>k b. map (\<lambda>x. x - sum_list k) b) \<rparr>"

definition demo_settings :: settings where
  "demo_settings = \<lparr> AES_KEY = replicate 32 1, AES_IV = replicate 16 7 \<rparr>"

definition no_faults :: faults where
  "no_faults = \<lparr> s3_fault = False, db_fault = False, broker_fault = False \<rparr>"

text \<open>A researcher, a recording of theirs, and the state after its upload.\<close>

definition demo_user :: user where
  "demo_user = \<lparr> u_id = 7, email = ''p@example.org'', is_active = True, roles = [''researcher''] \<rparr>"

definition demo_file :: audio_file where
  "demo_file =
     \<lparr> af_id = 1, uploader_id = 7, species = ''canis_lupus'', location = None, timestamp = 100,
       s3_object_key = ''audio/canis_lupus/u1_howl.wav'', original_filename = ''howl.wav'',
       file_format = ''wav'', file_size = 3, is_encrypted = True, quality_flag = None \<rparr>"

definition demo_body :: bytes where
  "demo_body = [38, 37, 36, 42, 42, 42, 42, 42, 42, 42, 42, 42, 42, 42, 42, 42]"

definition demo_world :: world where
  "demo_world =
     \<lparr> db = \<lparr> users = [demo_user], audio_files = [demo_file], analysis_results = [] \<rparr>,
       s3 = [''audio/canis_lupus/u1_howl.wav'' \<mapsto> \<lparr> Body = demo_body, ContentType = ''audio/wav'' \<rparr>],
       celery_queue = [] \<rparr>"

definition empty_world :: world where
  "empty_world =
     \<lparr> db = \<lparr> users = [demo_user], audio_files = [], analysis_results = [] \<rparr>,
       s3 = Map.empty, celery_queue = [] \<rparr>"

text \<open>
  A token decoder for concrete runs: the one token \<open>token-7\<close> is well signed and
  not expired, and carries the researcher's id and role.
\<close>

definition demo_jwt_decode :: "string \<Rightarrow> jwt_payload option" where
  "demo_jwt_decode token =
     (if token = ''token-7''
      then Some \<lparr> p_user_id = Some 7, p_roles = [''researcher''], p_exp = Some 2000000000 \<rparr>
      else None)"

text \<open>The same state with the recording's species changed to one outside every list.\<close>

definition cat_world :: world where
  "cat_world =
     demo_world\<lparr> db := (db demo_world)\<lparr> audio_files := [demo_file\<lparr> species := ''felis_catus'' \<rparr>] \<rparr> \<rparr>"

text \<open>Whether a \<open>quality_issues\<close> mapping has an entry that is true.\<close>

definition has_true_entry :: "(string \<times> bool) list option \<Rightarrow> bool" where
  "has_true_entry qi = (case qi of None \<Rightarrow> False | Some d \<Rightarrow> list_ex snd d)"

text \<open>
  PKCS7 padding as the standard defines it: the last byte \<open>n\<close> is between 1 and the
  block size and the last \<open>n\<close> bytes all equal \<open>n\<close>. The source has no such check;
  the predicate is what "padding validation" in the specification refers to.
\<close>

definition pkcs7_valid :: "bytes \<Rightarrow> bool" where
  "pkcs7_valid d =
     (d \<noteq> [] \<and> 1 \<le> unat (last d) \<and> unat (last d) \<le> 16 \<and> unat (last d) \<le> length d \<and>
      drop (length d - unat (last d)) d = replicate (unat (last d)) (last d))"

section \<open>Blocks and CBC chaining\<close>

lemma xor_bytes_cancel: "length xs = length ys \<Longrightarrow> xor_bytes (xor_bytes xs ys) ys = xs"
  unfolding xor_bytes_def
  by (induction xs ys rule: list_induct2) (simp_all add: xor.assoc)

lemma length_xor_bytes: "length (xor_bytes xs ys) = min (length xs) (length ys)"
  by (simp add: xor_bytes_def)

lemma nblocks_concat:
  "\<forall>b\<in>set bs. length b = 16 \<Longrightarrow> nblocks (length bs) (concat bs) = bs"
  by (induction bs) simp_all

lemma length_concat16: "\<forall>b\<in>set bs. length b = 16 \<Longrightarrow> length (concat bs) = 16 * length bs"
  by (induction bs) simp_all

lemma blocks_concat: "\<forall>b\<in>set bs. length b = 16 \<Longrightarrow> blocks (concat bs) = bs"
  by (simp add: blocks_def length_concat16 nblocks_concat)

lemma concat_nblocks: "length xs = 16 * n \<Longrightarrow> concat (nblocks n xs) = xs"
  by (induction n arbitrary: xs) simp_all

lemma nblocks_len: "length xs = 16 * n \<Longrightarrow> b \<in> set (nblocks n xs) \<Longrightarrow> length b = 16"
proof (induction n arbitrary: xs)
  case 0
  then show ?case by simp
next
  case (Suc n)
  have d: "length (drop 16 xs) = 16 * n" using Suc.prems(1) by simp
  from Suc.prems(2) have "b = take 16 xs \<or> b \<in> set (nblocks n (drop 16 xs))" by simp
  then show ?case
  proof
    assume "b = take 16 xs"
    then show ?thesis using Suc.prems(1) by simp
  next
    assume "b \<in> set (nblocks n (drop 16 xs))"
    then show ?thesis using Suc.IH[OF d] by simp
  qed
qed

lemma concat_blocks: "length xs mod 16 = 0 \<Longrightarrow> concat (blocks xs) = xs"
  unfolding blocks_def by (rule concat_nblocks) auto

lemma blocks_len: "length xs mod 16 = 0 \<Longrightarrow> b \<in> set (blocks xs) \<Longrightarrow> length b = 16"
  unfolding blocks_def by (rule nblocks_len[of xs "length xs div 16"]) auto

lemma length_nblocks: "length (nblocks n xs) = n"
  by (induction n arbitrary: xs) simp_all

lemma aes_like_enc_len: "aes_like c \<Longrightarrow> length b = 16 \<Longrightarrow> length (block_encrypt c k b) = 16"
  unfolding aes_like_def by blast

lemma aes_like_dec_len: "aes_like c \<Longrightarrow> length b = 16 \<Longrightarrow> length (block_decrypt c k b) = 16"
  unfolding aes_like_def by blast

lemma aes_like_inv: "aes_like c \<Longrightarrow> length b = 16 \<Longrightarrow> block_decrypt c k (block_encrypt c k b) = b"
  unfolding aes_like_def by blast

lemma cbc_encrypt_len:
  "aes_like c \<Longrightarrow> length iv = 16 \<Longrightarrow> \<forall>p\<in>set ps. length p = 16 \<Longrightarrow>
   \<forall>b\<in>set (cbc_encrypt_blocks (block_encrypt c k) iv ps). length b = 16"
proof (induction ps arbitrary: iv)
  case Nil
  then show ?case by simp
next
  case (Cons p ps)
  have lx: "length (xor_bytes p iv) = 16" using Cons.prems by (simp add: length_xor_bytes)
  have le: "length (block_encrypt c k (xor_bytes p iv)) = 16"
    by (rule aes_like_enc_len[OF Cons.prems(1) lx])
  have rest: "\<forall>q\<in>set ps. length q = 16" using Cons.prems(3) by simp
  show ?case using Cons.IH[OF Cons.prems(1) le rest] le by (simp add: Let_def)
qed

lemma cbc_decrypt_len:
  "aes_like c \<Longrightarrow> length iv = 16 \<Longrightarrow> \<forall>p\<in>set cs. length p = 16 \<Longrightarrow>
   \<forall>b\<in>set (cbc_decrypt_blocks (block_decrypt c k) iv cs). length b = 16"
proof (induction cs arbitrary: iv)
  case Nil
  then show ?case by simp
next
  case (Cons p cs)
  have lp: "length p = 16" using Cons.prems(3) by simp
  have ld: "length (block_decrypt c k p) = 16"
    by (rule aes_like_dec_len[OF Cons.prems(1) lp])
  have lx: "length (xor_bytes (block_decrypt c k p) iv) = 16"
    using ld Cons.prems(2) by (simp add: length_xor_bytes)
  have rest: "\<forall>q\<in>set cs. length q = 16" using Cons.prems(3) by simp
  show ?case using Cons.IH[OF Cons.prems(1) lp rest] lx by simp
qed

lemma length_cbc_decrypt: "length (cbc_decrypt_blocks D iv cs) = length cs"
  by (induction cs arbitrary: iv) simp_all

lemma cbc_roundtrip:
  "aes_like c \<Longrightarrow> length iv = 16 \<Longrightarrow> \<forall>p\<in>set ps. length p = 16 \<Longrightarrow>
   cbc_decrypt_blocks (block_decrypt c k) iv (cbc_encrypt_blocks (block_encrypt c k) iv ps) = ps"
proof (induction ps arbitrary: iv)
  case Nil
  then show ?case by simp
next
  case (Cons p ps)
  have lp: "length p = 16" using Cons.prems by simp
  have lx: "length (xor_bytes p iv) = 16" using lp Cons.prems by (simp add: length_xor_bytes)
  have le: "length (block_encrypt c k (xor_bytes p iv)) = 16"
    by (rule aes_like_enc_len[OF Cons.prems(1) lx])
  have de: "block_decrypt c k (block_encrypt c k (xor_bytes p iv)) = xor_bytes p iv"
    by (rule aes_like_inv[OF Cons.prems(1) lx])
  have "xor_bytes (xor_bytes p iv) iv = p"
    using lp Cons.prems(2) by (simp add: xor_bytes_cancel)
  moreover have rest: "\<forall>q\<in>set ps. length q = 16" using Cons.prems(3) by simp
  ultimately show ?case using Cons.IH[OF Cons.prems(1) le rest] de by (simp add: Let_def)
qed

lemma padded_mod: "(n + 16 - n mod 16) mod 16 = (0::nat)"
  by presburger

lemma unat_pad: "unat (of_nat (16 - n mod 16) :: byte) = 16 - n mod 16"
proof -
  have "16 - n mod 16 < (256::nat)" by simp
  then have "(16 - n mod 16) mod 2 ^ LENGTH(8) = 16 - n mod 16" by simp
  then show ?thesis by (simp only: unat_of_nat)
qed

lemma Cipher_ok:
  "length key = 16 \<or> length key = 24 \<or> length key = 32 \<Longrightarrow> length iv = 16 \<Longrightarrow> Cipher key iv = Inr ()"
  by (auto simp: Cipher_def)

lemma encrypt_bytes_ok:
  assumes "Cipher (AES_KEY cfg) (AES_IV cfg) = Inr ()"
  shows "encrypt_bytes c cfg data =
         Inr (concat (cbc_encrypt_blocks (block_encrypt c (AES_KEY cfg)) (AES_IV cfg)
           (blocks (data @ replicate (16 - length data mod 16) (of_nat (16 - length data mod 16))))))"
  using assms by (simp add: encrypt_bytes_def encryptor_update_finalize_def Let_def padded_mod)

lemma slice_padded: "0 < n \<Longrightarrow> slice_to_neg (xs @ replicate n v) n = xs"
  by (simp add: slice_to_neg_def)

lemma shift_cipher_ok: "aes_like shift_cipher"
  by (simp add: aes_like_def shift_cipher_def o_def)

lemma default_settings_sizes:
  "length (AES_KEY default_settings) = 38 \<and> length (AES_IV default_settings) = 25"
  by (simp add: default_settings_def encode_utf8_def)

text \<open>
  With the fallback strings of the source the cipher cannot be built: the key is 38
  bytes and the IV 25, so every encryption and decryption raises \<open>ValueError\<close>. The
  theorems on encryption below are about settings of a valid size.
\<close>

lemma default_settings_rejected:
  "encrypt_bytes c default_settings b = Inl ValueError \<and>
   decrypt_bytes c default_settings b = Inl ValueError"
  by (simp add: encrypt_bytes_def decrypt_bytes_def Cipher_def default_settings_sizes)

section \<open>Round trip of encryption\<close>

text \<open>
  Claim C2. For every byte payload \<open>b\<close>, with an AES key of a valid size and a
  16-byte IV in the settings, \<open>encrypt_bytes\<close> succeeds and \<open>decrypt_bytes\<close> of
  its result returns \<open>b\<close> exactly: PKCS7 padding and CBC encryption are both undone.
\<close>

theorem encrypt_decrypt_roundtrip:
  assumes c: "aes_like c"
    and key: "length (AES_KEY cfg) = 16 \<or> length (AES_KEY cfg) = 24 \<or> length (AES_KEY cfg) = 32"
    and iv: "length (AES_IV cfg) = 16"
  shows "\<exists>ct. encrypt_bytes c cfg b = Inr ct \<and> decrypt_bytes c cfg ct = Inr b"
proof -
  let ?n = "16 - length b mod 16"
  let ?padded = "b @ replicate ?n (of_nat ?n :: byte)"
  let ?enc = "cbc_encrypt_blocks (block_encrypt c (AES_KEY cfg)) (AES_IV cfg) (blocks ?padded)"
  let ?ct = "concat ?enc"
  have k: "Cipher (AES_KEY cfg) (AES_IV cfg) = Inr ()" by (rule Cipher_ok[OF key iv])
  have pm: "length ?padded mod 16 = 0" by (simp add: padded_mod)
  have bl: "\<forall>p\<in>set (blocks ?padded). length p = 16" using blocks_len[OF pm] by blast
  have el: "\<forall>p\<in>set ?enc. length p = 16" by (rule cbc_encrypt_len[OF c iv bl])
  have enc: "encrypt_bytes c cfg b = Inr ?ct" by (rule encrypt_bytes_ok[OF k])
  have "length ?ct = 16 * length ?enc" by (rule length_concat16[OF el])
  then have lct: "length ?ct mod 16 = 0" by (simp only: mod_mult_self1_is_0)
  have bc: "blocks ?ct = ?enc" by (rule blocks_concat[OF el])
  have dec: "decryptor_update_finalize c (AES_KEY cfg) (AES_IV cfg) ?ct = Inr ?padded"
    unfolding decryptor_update_finalize_def
    by (simp only: lct bc cbc_roundtrip[OF c iv bl] concat_blocks[OF pm] if_False simp_thms)
  have ne: "?padded \<noteq> []" by simp
  have la: "last ?padded = of_nat ?n" by simp
  have sl: "slice_to_neg ?padded ?n = b" by (rule slice_padded) simp
  have "decrypt_bytes c cfg ?ct = Inr b"
    unfolding decrypt_bytes_def k dec
    by (simp only: sum.case ne if_False la unat_pad Let_def sl)
  with enc show ?thesis by blast
qed

theorem encrypt_decrypt_roundtrip_witness:
  "aes_like shift_cipher \<and> length (AES_KEY demo_settings) = 32 \<and> length (AES_IV demo_settings) = 16 \<and>
   (\<exists>ct. encrypt_bytes shift_cipher demo_settings [1, 2, 3] = Inr ct \<and>
         decrypt_bytes shift_cipher demo_settings ct = Inr [1, 2, 3])"
  using encrypt_decrypt_roundtrip[of shift_cipher demo_settings "[1, 2, 3]"] shift_cipher_ok
  by (simp add: demo_settings_def)

section \<open>Retrieval does not validate the padding\<close>

lemma decryptor_length:
  assumes c: "aes_like c" and iv: "length iv = 16" and al: "length data mod 16 = 0"
  shows "\<exists>d. decryptor_update_finalize c key iv data = Inr d \<and> length d = length data"
proof -
  let ?dec = "cbc_decrypt_blocks (block_decrypt c key) iv (blocks data)"
  have bl: "\<forall>p\<in>set (blocks data). length p = 16" using blocks_len[OF al] by blast
  have dl: "\<forall>p\<in>set ?dec. length p = 16" by (rule cbc_decrypt_len[OF c iv bl])
  have "length (concat ?dec) = 16 * length ?dec" by (rule length_concat16[OF dl])
  also have "\<dots> = 16 * (length data div 16)"
    by (simp only: length_cbc_decrypt blocks_def length_nblocks)
  also have "\<dots> = length data" using al by presburger
  finally have "length (concat ?dec) = length data" .
  moreover have "decryptor_update_finalize c key iv data = Inr (concat ?dec)"
    using al by (simp add: decryptor_update_finalize_def)
  ultimately show ?thesis by blast
qed

text \<open>
  Claim C3, as the specification states it, fails: a stored ciphertext whose plaintext
  ends in the bytes \<open>231, 2\<close> has no valid PKCS7 padding, and retrieval returns its
  first 14 bytes with no error.
\<close>

theorem invalid_padding_returns_bytes:
  "decryptor_update_finalize shift_cipher (AES_KEY demo_settings) (AES_IV demo_settings)
       (replicate 15 0 @ [37]) = Inr (replicate 15 231 @ [2]) \<and>
   \<not> pkcs7_valid (replicate 15 231 @ [2]) \<and>
   retrieve_encrypted_audio_file shift_cipher demo_settings no_faults ''k''
       [''k'' \<mapsto> \<lparr> Body = replicate 15 0 @ [37], ContentType = ''audio/wav'' \<rparr>] =
     Inr (replicate 14 231)"
  by code_simp

text \<open>
  Claim C3, amended. \<open>decrypt_bytes\<close> has no padding check, and
  \<open>retrieve_encrypted_audio_file\<close> adds none. For a stored object, with the backend
  reachable and settings of a valid size: a ciphertext that is not a whole number of
  blocks raises \<open>ValueError\<close>, an empty one raises \<open>IndexError\<close>, and every other
  ciphertext is decrypted without error to the CBC plaintext \<open>d\<close> cut by
  \<open>d[:-d[-1]]\<close>, whether or not \<open>d\<close> ends in valid padding.
\<close>

theorem retrieve_without_padding_check:
  assumes c: "aes_like c"
    and key: "length (AES_KEY cfg) = 16 \<or> length (AES_KEY cfg) = 24 \<or> length (AES_KEY cfg) = 32"
    and iv: "length (AES_IV cfg) = 16"
    and up: "\<not> s3_fault fl"
    and obj: "objs k = Some obj"
  shows "(length (Body obj) mod 16 \<noteq> 0 \<longrightarrow>
            retrieve_encrypted_audio_file c cfg fl k objs = Inl ValueError) \<and>
         (Body obj = [] \<longrightarrow> retrieve_encrypted_audio_file c cfg fl k objs = Inl IndexError) \<and>
         (Body obj \<noteq> [] \<and> length (Body obj) mod 16 = 0 \<longrightarrow>
            (\<exists>d. decryptor_update_finalize c (AES_KEY cfg) (AES_IV cfg) (Body obj) = Inr d \<and>
                 d \<noteq> [] \<and>
                 retrieve_encrypted_audio_file c cfg fl k objs = Inr (slice_to_neg d (unat (last d)))))"
proof -
  have k: "Cipher (AES_KEY cfg) (AES_IV cfg) = Inr ()" by (rule Cipher_ok[OF key iv])
  have r: "retrieve_encrypted_audio_file c cfg fl k objs = decrypt_bytes c cfg (Body obj)"
    using up obj by (simp add: retrieve_encrypted_audio_file_def)
  have a: "length (Body obj) mod 16 \<noteq> 0 \<longrightarrow> decrypt_bytes c cfg (Body obj) = Inl ValueError"
    by (simp add: decrypt_bytes_def k decryptor_update_finalize_def)
  have b: "Body obj = [] \<longrightarrow> decrypt_bytes c cfg (Body obj) = Inl IndexError"
    by (simp add: decrypt_bytes_def k decryptor_update_finalize_def blocks_def)
  have d: "Body obj \<noteq> [] \<and> length (Body obj) mod 16 = 0 \<longrightarrow>
            (\<exists>d. decryptor_update_finalize c (AES_KEY cfg) (AES_IV cfg) (Body obj) = Inr d \<and>
                 d \<noteq> [] \<and> decrypt_bytes c cfg (Body obj) = Inr (slice_to_neg d (unat (last d))))"
  proof
    assume h: "Body obj \<noteq> [] \<and> length (Body obj) mod 16 = 0"
    then have al: "length (Body obj) mod 16 = 0" by simp
    obtain d where d1: "decryptor_update_finalize c (AES_KEY cfg) (AES_IV cfg) (Body obj) = Inr d"
      and d2: "length d = length (Body obj)"
      using decryptor_length[OF c iv al] by blast
    have ne: "d \<noteq> []" using d2 h by auto
    have "decrypt_bytes c cfg (Body obj) = Inr (slice_to_neg d (unat (last d)))"
      unfolding decrypt_bytes_def k d1 using ne by (simp add: Let_def)
    with d1 ne show "\<exists>d. decryptor_update_finalize c (AES_KEY cfg) (AES_IV cfg) (Body obj) = Inr d \<and>
                 d \<noteq> [] \<and> decrypt_bytes c cfg (Body obj) = Inr (slice_to_neg d (unat (last d)))"
      by blast
  qed
  show ?thesis unfolding r using a b d by blast
qed

theorem retrieve_without_padding_check_witness:
  "aes_like shift_cipher \<and> length (AES_KEY demo_settings) = 32 \<and> length (AES_IV demo_settings) = 16 \<and>
   \<not> s3_fault no_faults \<and>
   [''k'' \<mapsto> \<lparr> Body = replicate 15 0 @ [37], ContentType = ''audio/wav'' \<rparr>] ''k'' =
      Some \<lparr> Body = replicate 15 0 @ [37], ContentType = ''audio/wav'' \<rparr> \<and>
   (\<exists>d. decryptor_update_finalize shift_cipher (AES_KEY demo_settings) (AES_IV demo_settings)
           (replicate 15 0 @ [37]) = Inr d \<and> d \<noteq> [] \<and>
        retrieve_encrypted_audio_file shift_cipher demo_settings no_faults ''k''
           [''k'' \<mapsto> \<lparr> Body = replicate 15 0 @ [37], ContentType = ''audio/wav'' \<rparr>] =
        Inr (slice_to_neg d (unat (last d))))"
  using retrieve_without_padding_check[of shift_cipher demo_settings no_faults
      "[''k'' \<mapsto> \<lparr> Body = replicate 15 0 @ [37], ContentType = ''audio/wav'' \<rparr>]" "''k''"
      "\<lparr> Body = replicate 15 0 @ [37], ContentType = ''audio/wav'' \<rparr>"] shift_cipher_ok
  by (simp add: demo_settings_def no_faults_def)

section \<open>Equal plaintexts, equal ciphertexts\<close>

lemma demo_ciphertext:
  "encrypt_bytes shift_cipher demo_settings [1, 2, 3] =
   Inr [38, 37, 36, 42, 42, 42, 42, 42, 42, 42, 42, 42, 42, 42, 42, 42]"
  by code_simp

text \<open>
  Claim C9. The key and the IV are the two module-level values of the settings, the same
  in every call, and nothing else enters \<open>encrypt_bytes\<close> but the payload. So two
  stores of the same payload, under any object keys, content types and prior bucket
  contents, leave byte-identical bodies: the one ciphertext \<open>encrypt_bytes\<close> gives.
\<close>

theorem equal_plaintexts_equal_ciphertexts:
  assumes "store_encrypted_audio_file c cfg fl1 k1 b t1 objs1 = Inr s1"
    and "store_encrypted_audio_file c cfg fl2 k2 b t2 objs2 = Inr s2"
  shows "\<exists>ct. encrypt_bytes c cfg b = Inr ct \<and>
              map_option Body (s1 k1) = Some ct \<and> map_option Body (s2 k2) = Some ct"
  using assms
  by (auto simp: store_encrypted_audio_file_def split: sum.splits if_splits)

theorem equal_plaintexts_equal_ciphertexts_witness:
  "store_encrypted_audio_file shift_cipher demo_settings no_faults ''audio/a'' [1, 2, 3] ''audio/wav'' Map.empty =
     Inr [''audio/a'' \<mapsto> \<lparr> Body = [38, 37, 36, 42, 42, 42, 42, 42, 42, 42, 42, 42, 42, 42, 42, 42],
                            ContentType = ''audio/wav'' \<rparr>] \<and>
   store_encrypted_audio_file shift_cipher demo_settings no_faults ''audio/b'' [1, 2, 3] ''audio/mpeg''
       [''audio/a'' \<mapsto> \<lparr> Body = [38, 37, 36, 42, 42, 42, 42, 42, 42, 42, 42, 42, 42, 42, 42, 42],
                            ContentType = ''audio/wav'' \<rparr>] =
     Inr [''audio/a'' \<mapsto> \<lparr> Body = [38, 37, 36, 42, 42, 42, 42, 42, 42, 42, 42, 42, 42, 42, 42, 42],
                            ContentType = ''audio/wav'' \<rparr>,
          ''audio/b'' \<mapsto> \<lparr> Body = [38, 37, 36, 42, 42, 42, 42, 42, 42, 42, 42, 42, 42, 42, 42, 42],
                            ContentType = ''audio/mpeg'' \<rparr>] \<and>
   (\<exists>ct. encrypt_bytes shift_cipher demo_settings [1, 2, 3] = Inr ct \<and>
      map_option Body ([''audio/a'' \<mapsto> \<lparr> Body = [38, 37, 36, 42, 42, 42, 42, 42, 42, 42, 42, 42, 42, 42, 42, 42],
                            ContentType = ''audio/wav'' \<rparr>] ''audio/a'') = Some ct \<and>
      map_option Body ([''audio/a'' \<mapsto> \<lparr> Body = [38, 37, 36, 42, 42, 42, 42, 42, 42, 42, 42, 42, 42, 42, 42, 42],
                            ContentType = ''audio/wav'' \<rparr>,
          ''audio/b'' \<mapsto> \<lparr> Body = [38, 37, 36, 42, 42, 42, 42, 42, 42, 42, 42, 42, 42, 42, 42, 42],
                            ContentType = ''audio/mpeg'' \<rparr>] ''audio/b'') = Some ct)"
proof -
  have h1: "store_encrypted_audio_file shift_cipher demo_settings no_faults ''audio/a'' [1, 2, 3] ''audio/wav'' Map.empty =
     Inr [''audio/a'' \<mapsto> \<lparr> Body = [38, 37, 36, 42, 42, 42, 42, 42, 42, 42, 42, 42, 42, 42, 42, 42],
                            ContentType = ''audio/wav'' \<rparr>]"
    by (simp add: store_encrypted_audio_file_def demo_ciphertext no_faults_def)
  have h2: "store_encrypted_audio_file shift_cipher demo_settings no_faults ''audio/b'' [1, 2, 3] ''audio/mpeg''
       [''audio/a'' \<mapsto> \<lparr> Body = [38, 37, 36, 42, 42, 42, 42, 42, 42, 42, 42, 42, 42, 42, 42, 42],
                            ContentType = ''audio/wav'' \<rparr>] =
     Inr [''audio/a'' \<mapsto> \<lparr> Body = [38, 37, 36, 42, 42, 42, 42, 42, 42, 42, 42, 42, 42, 42, 42, 42],
                            ContentType = ''audio/wav'' \<rparr>,
          ''audio/b'' \<mapsto> \<lparr> Body = [38, 37, 36, 42, 42, 42, 42, 42, 42, 42, 42, 42, 42, 42, 42, 42],
                            ContentType = ''audio/mpeg'' \<rparr>]"
    by (simp add: store_encrypted_audio_file_def demo_ciphertext no_faults_def)
  show ?thesis
    using equal_plaintexts_equal_ciphertexts[OF h1 h2] h1 h2 by blast
qed

section \<open>Authentication and the researcher gate\<close>

text \<open>
  The role check of \<open>get_current_active_researcher\<close>: a user is turned away with 403
  exactly when \<open>researcher\<close> is not among its roles.
\<close>

lemma researcher_role_check:
  "get_current_active_researcher v =
     (if ROLE_RESEARCHER \<in> set (roles v) then Inr v
      else Inl (AuthError 403 ''Researcher access required''))"
  by (simp add: get_current_active_researcher_def)

text \<open>
  The user lookup of \<open>get_current_user\<close> is made without a database session, and
  \<open>get_user_by_id\<close> answers \<open>None\<close> then: whatever the token, the dependency
  ends in a 401, and so does every handler behind it. No token is ever answered with 403.
\<close>

lemma get_current_user_never_succeeds:
  "\<exists>msg. get_current_user jwt_decode token = Inl (AuthError 401 msg)"
  by (simp add: get_current_user_def decode_access_token_def get_user_by_id_def
      split: option.splits)

lemma depends_researcher_never_succeeds:
  "\<exists>msg. depends_researcher jwt_decode token = Inl (AuthError 401 msg)"
  using get_current_user_never_succeeds[of jwt_decode token]
  by (auto simp: depends_researcher_def)

text \<open>
  Claim C5. The claim says that an active principal holding \<open>researcher\<close> passes the
  gate. The code does not let it pass: user 7 is in the users table, active, with the
  role \<open>researcher\<close>, and presents a token that decodes to its id and that role; yet
  \<open>get_current_user\<close>, and with it the researcher dependency, answers 401
  "User not found".
\<close>

theorem active_researcher_is_rejected:
  "demo_jwt_decode ''token-7'' =
     Some \<lparr> p_user_id = Some 7, p_roles = [''researcher''], p_exp = Some 2000000000 \<rparr> \<and>
   get_user_by_id (Some 7) (Some (db demo_world)) = Some demo_user \<and>
   is_active demo_user \<and> ROLE_RESEARCHER \<in> set (roles demo_user) \<and>
   get_current_user demo_jwt_decode ''token-7'' = Inl (AuthError 401 ''User not found'') \<and>
   depends_researcher demo_jwt_decode ''token-7'' = Inl (AuthError 401 ''User not found'') \<and>
   status_code (depends_researcher demo_jwt_decode ''token-7'') = 401"
  by (simp add: demo_jwt_decode_def get_user_by_id_def demo_world_def demo_user_def
      ROLE_RESEARCHER_def get_current_user_def decode_access_token_def depends_researcher_def
      status_code_def)

section \<open>Ownership\<close>

text \<open>
  Claim C4. For every user \<open>p\<close> handed to the handlers, whatever its roles and whether
  active or not, and every stored file whose \<open>uploader_id\<close> differs from \<open>p\<close>'s id,
  both \<open>trigger_audio_analysis\<close> and \<open>get_audio_analysis_result\<close> fail with 403 and
  change nothing. The check reads only the two ids, never the roles.
\<close>

theorem ownership_isolation:
  assumes "get_audio_file_by_id fid (Some (db w)) = Some file"
    and "uploader_id file \<noteq> u_id p"
  shows "trigger_audio_analysis fl fid p w =
           (Inl (HTTPException 403 ''You do not have access to this audio file.''), w) \<and>
         get_audio_analysis_result fid p w =
           Inl (HTTPException 403 ''You do not have access to this audio file.'')"
  using assms by (simp add: trigger_audio_analysis_def get_audio_analysis_result_def)

theorem ownership_isolation_witness:
  "get_audio_file_by_id 1 (Some (db demo_world)) = Some demo_file \<and>
   uploader_id demo_file \<noteq> u_id (demo_user\<lparr> u_id := 8, roles := [''researcher'', ''admin''] \<rparr>) \<and>
   trigger_audio_analysis no_faults 1 (demo_user\<lparr> u_id := 8, roles := [''researcher'', ''admin''] \<rparr>) demo_world =
     (Inl (HTTPException 403 ''You do not have access to this audio file.''), demo_world) \<and>
   get_audio_analysis_result 1 (demo_user\<lparr> u_id := 8, roles := [''researcher'', ''admin''] \<rparr>) demo_world =
     Inl (HTTPException 403 ''You do not have access to this audio file.'')"
proof -
  have f: "get_audio_file_by_id 1 (Some (db demo_world)) = Some demo_file"
    by (simp add: get_audio_file_by_id_def demo_world_def demo_file_def)
  have o: "uploader_id demo_file \<noteq> u_id (demo_user\<lparr> u_id := 8, roles := [''researcher'', ''admin''] \<rparr>)"
    by (simp add: demo_file_def)
  show ?thesis using ownership_isolation[OF f o, of no_faults] f o by blast
qed

section \<open>The analysis worker\<close>

lemma find_af_id: "find (\<lambda>a. af_id a = fid) xs = Some file \<Longrightarrow> af_id file = fid \<and> file \<in> set xs"
  by (induction xs) (auto split: if_splits)

lemma demo_retrieve:
  "retrieve_encrypted_audio_file shift_cipher demo_settings no_faults
     ''audio/canis_lupus/u1_howl.wav'' (s3 demo_world) = Inr [1, 2, 3]"
  by code_simp

text \<open>
  Claim C7. For a stored file whose species is outside the worker's list, once the bytes
  are retrieved and the database takes the commit, the task does not end in an error: it
  stores one result with no translation, no tags, no accuracy and \<open>partial = True\<close>, and
  returns its id, for every outcome of the quality checks.
\<close>

theorem unsupported_species_completes:
  assumes found: "find (\<lambda>a. af_id a = fid) (audio_files (db w)) = Some file"
    and got: "retrieve_encrypted_audio_file c cfg fl (s3_object_key file) (s3 w) = Inr audio_bytes"
    and unsup: "species file \<notin> set worker_species"
    and dbok: "\<not> db_fault fl"
  shows "\<exists>row. run_analysis_task c cfg fl now noise overlap fid w =
             (TaskResult (ar_id row) True None,
              w\<lparr> db := (db w)\<lparr> analysis_results := analysis_results (db w) @ [row] \<rparr> \<rparr>) \<and>
           audio_file_id row = fid \<and> translation row = None \<and> behavioral_tags row = None \<and>
           accuracy row = None \<and> partial row"
proof -
  let ?row = "\<lparr> ar_id = next_id (map ar_id (analysis_results (db w))), audio_file_id = fid,
      translation = None, behavioral_tags = None, accuracy = None,
      quality_issues = Some (run_quality_checks noise overlap), partial = True, created_at = now \<rparr>"
  have "run_analysis_task c cfg fl now noise overlap fid w =
          (TaskResult (ar_id ?row) True None,
           w\<lparr> db := (db w)\<lparr> analysis_results := analysis_results (db w) @ [?row] \<rparr> \<rparr>)"
    using find_af_id[OF found] unsup dbok
    by (simp add: run_analysis_task_def found got add_analysis_result_def Let_def)
  then show ?thesis by (intro exI[of _ ?row]) simp
qed

theorem unsupported_species_completes_witness:
  "find (\<lambda>a. af_id a = 1) (audio_files (db cat_world)) = Some (demo_file\<lparr> species := ''felis_catus'' \<rparr>) \<and>
   retrieve_encrypted_audio_file shift_cipher demo_settings no_faults
     (s3_object_key (demo_file\<lparr> species := ''felis_catus'' \<rparr>)) (s3 cat_world) = Inr [1, 2, 3] \<and>
   species (demo_file\<lparr> species := ''felis_catus'' \<rparr>) \<notin> set worker_species \<and>
   \<not> db_fault no_faults \<and>
   (\<exists>row. run_analysis_task shift_cipher demo_settings no_faults 200 False False 1 cat_world =
             (TaskResult (ar_id row) True None,
              cat_world\<lparr> db := (db cat_world)\<lparr> analysis_results := analysis_results (db cat_world) @ [row] \<rparr> \<rparr>) \<and>
           audio_file_id row = 1 \<and> translation row = None \<and> behavioral_tags row = None \<and>
           accuracy row = None \<and> partial row)"
proof -
  have f: "find (\<lambda>a. af_id a = 1) (audio_files (db cat_world)) = Some (demo_file\<lparr> species := ''felis_catus'' \<rparr>)"
    by (simp add: cat_world_def demo_world_def demo_file_def)
  have g: "retrieve_encrypted_audio_file shift_cipher demo_settings no_faults
     (s3_object_key (demo_file\<lparr> species := ''felis_catus'' \<rparr>)) (s3 cat_world) = Inr [1, 2, 3]"
    using demo_retrieve by (simp add: cat_world_def demo_file_def)
  have u: "species (demo_file\<lparr> species := ''felis_catus'' \<rparr>) \<notin> set worker_species"
    by (simp add: worker_species_def)
  have d: "\<not> db_fault no_faults" by (simp add: no_faults_def)
  show ?thesis
    using unsupported_species_completes[OF f g u d, of 200 False False] f g u d by blast
qed

lemma run_analysis_task_persists:
  assumes "run_analysis_task c cfg fl now noise overlap fid w = (TaskResult rid p acc, w')"
  shows "\<exists>file. find (\<lambda>a. af_id a = fid) (audio_files (db w)) = Some file \<and>
           w' = w\<lparr> db := (db w)\<lparr> analysis_results := analysis_results (db w) @
             [\<lparr> ar_id = rid, audio_file_id = af_id file,
                translation = (if species file \<in> set worker_species
                               then Some (''Simulated translation for '' @ species file) else None),
                behavioral_tags = (if species file \<in> set worker_species
                               then Some (if species file = ''canis_lupus''
                                          then [''mating_call'', ''territorial''] else [''aggression''])
                               else None),
                accuracy = acc,
                quality_issues = Some [(''noise'', noise), (''overlap'', overlap)],
                partial = p, created_at = now \<rparr>] \<rparr> \<rparr> \<and>
           p = (if species file \<in> set worker_species then noise \<or> overlap else True) \<and>
           acc = (if species file \<in> set worker_species then Some (85 / 100) else None)"
proof (cases "find (\<lambda>a. af_id a = fid) (audio_files (db w))")
  case None
  with assms show ?thesis by (simp add: run_analysis_task_def)
next
  case (Some f)
  show ?thesis
  proof (cases "retrieve_encrypted_audio_file c cfg fl (s3_object_key f) (s3 w)")
    case (Inl e)
    with assms Some show ?thesis by (simp add: run_analysis_task_def)
  next
    case (Inr audio_bytes)
    show ?thesis
    proof (cases "db_fault fl")
      case True
      with assms Some Inr show ?thesis
        by (simp add: run_analysis_task_def add_analysis_result_def Let_def split: if_splits)
    next
      case False
      with assms Some Inr show ?thesis
        by (auto simp: run_analysis_task_def add_analysis_result_def Let_def
            run_quality_checks_def dict_get_def run_translation_and_tagging_def split: if_splits)
    qed
  qed
qed

text \<open>
  Claim C8. Whenever the worker reports a stored result, that result is the one row added
  to the table, and it has \<open>partial = True\<close> if any quality issue is true or the
  translation is null.
\<close>

theorem persisted_result_partial_invariant:
  assumes "run_analysis_task c cfg fl now noise overlap fid w = (TaskResult rid p acc, w')"
  shows "\<exists>row. analysis_results (db w') = analysis_results (db w) @ [row] \<and> ar_id row = rid \<and>
           partial row = p \<and>
           (has_true_entry (quality_issues row) \<or> translation row = None \<longrightarrow> partial row)"
  using run_analysis_task_persists[OF assms]
  by (elim exE conjE) (simp add: has_true_entry_def split: if_splits)

lemma demo_run:
  "run_analysis_task shift_cipher demo_settings no_faults 200 True False 1 demo_world =
     (TaskResult 1 True (Some (85 / 100)),
      demo_world\<lparr> db := (db demo_world)\<lparr> analysis_results :=
        [\<lparr> ar_id = 1, audio_file_id = 1,
           translation = Some ''Simulated translation for canis_lupus'',
           behavioral_tags = Some [''mating_call'', ''territorial''],
           accuracy = Some (85 / 100),
           quality_issues = Some [(''noise'', True), (''overlap'', False)],
           partial = True, created_at = 200 \<rparr>] \<rparr> \<rparr>)"
proof -
  have r: "retrieve_encrypted_audio_file shift_cipher demo_settings no_faults
     ''audio/canis_lupus/u1_howl.wav'' (s3 demo_world) = Inr [1, 2, 3]"
    by (rule demo_retrieve)
  have f: "find (\<lambda>a. af_id a = 1) (audio_files (db demo_world)) = Some demo_file"
    by (simp add: demo_world_def demo_file_def)
  have k: "s3_object_key demo_file = ''audio/canis_lupus/u1_howl.wav''"
    by (simp add: demo_file_def)
  have a: "analysis_results (db demo_world) = []" by (simp add: demo_world_def)
  show ?thesis
    unfolding run_analysis_task_def f option.case k r sum.case
    by (simp add: add_analysis_result_def Let_def a next_id_def no_faults_def
        run_quality_checks_def dict_get_def run_translation_and_tagging_def worker_species_def
        demo_file_def)
qed

theorem persisted_result_partial_invariant_witness:
  "run_analysis_task shift_cipher demo_settings no_faults 200 True False 1 demo_world =
     (TaskResult 1 True (Some (85 / 100)),
      demo_world\<lparr> db := (db demo_world)\<lparr> analysis_results :=
        [\<lparr> ar_id = 1, audio_file_id = 1,
           translation = Some ''Simulated translation for canis_lupus'',
           behavioral_tags = Some [''mating_call'', ''territorial''],
           accuracy = Some (85 / 100),
           quality_issues = Some [(''noise'', True), (''overlap'', False)],
           partial = True, created_at = 200 \<rparr>] \<rparr> \<rparr>) \<and>
   (\<exists>row. analysis_results (db (demo_world\<lparr> db := (db demo_world)\<lparr> analysis_results :=
        [\<lparr> ar_id = 1, audio_file_id = 1,
           translation = Some ''Simulated translation for canis_lupus'',
           behavioral_tags = Some [''mating_call'', ''territorial''],
           accuracy = Some (85 / 100),
           quality_issues = Some [(''noise'', True), (''overlap'', False)],
           partial = True, created_at = 200 \<rparr>] \<rparr> \<rparr>)) =
         analysis_results (db demo_world) @ [row] \<and> ar_id row = 1 \<and> partial row = True \<and>
         has_true_entry (quality_issues row) \<and> partial row)"
proof -
  from persisted_result_partial_invariant[OF demo_run]
  obtain row where
    r1: "analysis_results (db (demo_world\<lparr> db := (db demo_world)\<lparr> analysis_results :=
        [\<lparr> ar_id = 1, audio_file_id = 1,
           translation = Some ''Simulated translation for canis_lupus'',
           behavioral_tags = Some [''mating_call'', ''territorial''],
           accuracy = Some (85 / 100),
           quality_issues = Some [(''noise'', True), (''overlap'', False)],
           partial = True, created_at = 200 \<rparr>] \<rparr> \<rparr>)) =
         analysis_results (db demo_world) @ [row]"
    and r2: "ar_id row = 1" and r3: "partial row = True"
    by blast
  have "has_true_entry (quality_issues row)"
    using r1 by (auto simp: demo_world_def has_true_entry_def)
  with r1 r2 r3 demo_run show ?thesis by blast
qed

section \<open>Upload validation\<close>

lemma lower_char_idem: "lower_char (lower_char ch) = lower_char ch"
proof -
  have "of_char (char_of ((of_char ch :: nat) + 32)) = ((of_char ch :: nat) + 32) mod 256"
    by (simp only: of_char_of)
  then show ?thesis
    by (auto simp: lower_char_def Let_def)
qed

lemma lower_idem: "lower (lower s) = lower s"
  by (simp add: lower_def lower_char_idem)

lemma howl_ext: "lower (last_segment ''howl.wav'') = ''wav''"
  by code_simp

lemma lower_wav: "lower ''wav'' = ''wav''"
  by code_simp

lemma demo_empty_ciphertext: "encrypt_bytes shift_cipher demo_settings [] = Inr (replicate 16 55)"
  by code_simp

lemma demo_upload:
  "upload_audio_file shift_cipher demo_settings no_faults ''u1'' 100
     \<lparr> filename = ''howl.wav'', content_type = ''audio/wav'', spool_max_size = Some 1048576,
       contents = [1, 2, 3] \<rparr>
     ''canis_lupus'' None None demo_user empty_world =
   (Inr \<lparr> aur_audio_file = demo_file, aur_message = ''Audio file uploaded successfully.'' \<rparr>,
    demo_world)"
  by (simp add: upload_audio_file_def validate_species_def SUPPORTED_SPECIES_def howl_ext
      validate_audio_format_def lower_wav get_supported_audio_formats_def
      SUPPORTED_AUDIO_FORMATS_def MAX_FILE_SIZE_def store_encrypted_audio_file_def
      demo_ciphertext no_faults_def empty_world_def demo_world_def demo_file_def demo_user_def
      demo_body_def add_audio_file_def next_id_def AudioFileRead_from_orm_def format_pattern_def is_space_def Let_def)

lemma supported_species_short:
  "sp \<in> set SUPPORTED_SPECIES \<Longrightarrow> length sp \<le> 128 \<and> \<not> list_all is_space sp"
  by (auto simp: SUPPORTED_SPECIES_def is_space_def)

lemma AudioFileRead_from_orm_Inl:
  "AudioFileRead_from_orm a = Inl e \<Longrightarrow> e = PydanticValidationError"
  by (simp add: AudioFileRead_from_orm_def split: if_splits)

lemma upload_validation_outcomes:
  "(sp \<notin> set SUPPORTED_SPECIES \<longrightarrow>
      upload_audio_file c cfg fl uuid now upl sp loc ts p w =
        (Inl (HTTPException 400 (''Species '' @ quoted sp @ '' is not supported.'')), w)) \<and>
   (sp \<in> set SUPPORTED_SPECIES \<and>
    lower (last_segment (filename upl)) \<notin> set SUPPORTED_AUDIO_FORMATS \<longrightarrow>
      upload_audio_file c cfg fl uuid now upl sp loc ts p w =
        (Inl (HTTPException 400 (''Audio format '' @ quoted (lower (last_segment (filename upl))) @
              '' is not supported.'')), w)) \<and>
   (sp \<in> set SUPPORTED_SPECIES \<and>
    lower (last_segment (filename upl)) \<in> set SUPPORTED_AUDIO_FORMATS \<and>
    MAX_FILE_SIZE < length (contents upl) \<longrightarrow>
      upload_audio_file c cfg fl uuid now upl sp loc ts p w =
        (Inl (HTTPException 413 ''Audio file exceeds maximum allowed size (50MB).''), w)) \<and>
   (sp \<in> set SUPPORTED_SPECIES \<and>
    lower (last_segment (filename upl)) \<in> set SUPPORTED_AUDIO_FORMATS \<and>
    length (contents upl) \<le> MAX_FILE_SIZE \<longrightarrow>
      status_code (fst (upload_audio_file c cfg fl uuid now upl sp loc ts p w)) = 200 \<or>
      status_code (fst (upload_audio_file c cfg fl uuid now upl sp loc ts p w)) = 500)"
  by (auto simp: upload_audio_file_def validate_species_def validate_audio_format_def lower_idem
      get_supported_audio_formats_def Let_def status_code_def
      split: sum.splits prod.splits dest: AudioFileRead_from_orm_Inl)

lemma upload_accepts:
  assumes sp: "sp \<in> set SUPPORTED_SPECIES"
    and fmt: "lower (last_segment (filename upl)) \<in> set SUPPORTED_AUDIO_FORMATS"
    and pos: "0 < length (contents upl)"
    and le: "length (contents upl) \<le> MAX_FILE_SIZE"
    and key: "length (AES_KEY cfg) = 16 \<or> length (AES_KEY cfg) = 24 \<or> length (AES_KEY cfg) = 32"
    and iv: "length (AES_IV cfg) = 16"
    and s3ok: "\<not> s3_fault fl" and dbok: "\<not> db_fault fl"
    and fresh: "''audio/'' @ sp @ ''/'' @ uuid @ ''_'' @ filename upl
                  \<notin> set (map s3_object_key (audio_files (db w)))"
    and name: "length (filename upl) \<le> 256"
    and place: "loc = None \<or> (\<exists>l. loc = Some l \<and> length l \<le> 256)"
  shows "\<exists>resp w'. upload_audio_file c cfg fl uuid now upl sp loc ts p w = (Inr resp, w') \<and>
           file_size (aur_audio_file resp) = length (contents upl)"
proof -
  have k: "Cipher (AES_KEY cfg) (AES_IV cfg) = Inr ()" by (rule Cipher_ok[OF key iv])
  obtain ct where ct: "encrypt_bytes c cfg (contents upl) = Inr ct"
    using encrypt_bytes_ok[OF k] by blast
  have f2: "lower (last_segment (filename upl)) \<in> set [''wav'', ''mp3'', ''flac'']"
    using fmt by (simp add: SUPPORTED_AUDIO_FORMATS_def)
  show ?thesis
    using sp fmt pos le s3ok dbok fresh name place supported_species_short[OF sp] f2
    by (auto simp: upload_audio_file_def validate_species_def validate_audio_format_def lower_idem
        get_supported_audio_formats_def Let_def store_encrypted_audio_file_def ct
        add_audio_file_def AudioFileRead_from_orm_def format_pattern_def)
qed

lemma upload_size_boundary:
  assumes "sp \<in> set SUPPORTED_SPECIES"
    and "lower (last_segment (filename upl)) \<in> set SUPPORTED_AUDIO_FORMATS"
  shows "(length (contents upl) = 50 * 1024 * 1024 + 1 \<longrightarrow>
            upload_audio_file c cfg fl uuid now upl sp loc ts p w =
              (Inl (HTTPException 413 ''Audio file exceeds maximum allowed size (50MB).''), w)) \<and>
         (length (contents upl) = 50 * 1024 * 1024 \<longrightarrow>
            status_code (fst (upload_audio_file c cfg fl uuid now upl sp loc ts p w)) \<noteq> 413)"
  using assms upload_validation_outcomes[of sp c cfg fl uuid now upl loc ts p w]
  by (auto simp: MAX_FILE_SIZE_def)

text \<open>
  Claim C6. The handler rejects an unsupported species and an unsupported extension with
  400 and a payload above 50 MiB with 413, and a payload of exactly 50 MiB passes the size
  check (\<open>upload_validation_outcomes\<close>, \<open>upload_size_boundary\<close>,
  \<open>upload_accepts\<close>). The lower bound is missing: the handler never compares the
  size with 0, although the schema of its own response demands \<open>file_size > 0\<close>. An
  empty \<open>howl.wav\<close> is not rejected: it is encrypted and stored, its row is committed
  with \<open>file_size = 0\<close>, and only then building the response raises.
\<close>

theorem empty_upload_is_stored:
  "upload_audio_file shift_cipher demo_settings no_faults ''u1'' 100
     \<lparr> filename = ''howl.wav'', content_type = ''audio/wav'', spool_max_size = Some 1048576,
       contents = [] \<rparr>
     ''canis_lupus'' None None demo_user empty_world =
   (Inl PydanticValidationError,
    empty_world\<lparr>
      s3 := [''audio/canis_lupus/u1_howl.wav'' \<mapsto>
               \<lparr> Body = replicate 16 55, ContentType = ''audio/wav'' \<rparr>],
      db := (db empty_world)\<lparr> audio_files := [demo_file\<lparr> file_size := 0 \<rparr>] \<rparr> \<rparr>)"
  by (simp add: upload_audio_file_def validate_species_def SUPPORTED_SPECIES_def howl_ext
      validate_audio_format_def lower_wav get_supported_audio_formats_def
      SUPPORTED_AUDIO_FORMATS_def MAX_FILE_SIZE_def store_encrypted_audio_file_def
      demo_empty_ciphertext no_faults_def empty_world_def demo_file_def demo_user_def
      add_audio_file_def next_id_def AudioFileRead_from_orm_def format_pattern_def is_space_def Let_def)

section \<open>The two species lists\<close>

lemma upload_rows_validated:
  assumes "upload_audio_file c cfg fl uuid now file sp loc ts p w = (r, w')"
  shows "audio_files (db w') = audio_files (db w) \<or>
         (\<exists>row. audio_files (db w') = audio_files (db w) @ [row] \<and> species row = sp \<and>
                validate_species sp = Inr ())"
proof (cases "validate_species sp")
  case (Inl e)
  with assms show ?thesis by (auto simp: upload_audio_file_def)
next
  case (Inr u)
  then have v: "validate_species sp = Inr ()" by simp
  show ?thesis
    using assms unfolding upload_audio_file_def v
    by (auto simp: Let_def add_audio_file_def split: sum.splits if_splits prod.splits)
qed

lemma validate_species_iff: "validate_species sp = Inr () \<longleftrightarrow> sp \<in> set SUPPORTED_SPECIES"
  by (simp add: validate_species_def)

lemma worker_model_path:
  assumes found: "find (\<lambda>a. af_id a = fid) (audio_files (db v)) = Some f"
    and got: "retrieve_encrypted_audio_file c cfg fl (s3_object_key f) (s3 v) = Inr audio_bytes"
    and sup: "species f \<in> set worker_species"
    and dbok: "\<not> db_fault fl"
  shows "\<exists>row. run_analysis_task c cfg fl t noise overlap fid v =
             (TaskResult (ar_id row) (noise \<or> overlap) (Some (85 / 100)),
              v\<lparr> db := (db v)\<lparr> analysis_results := analysis_results (db v) @ [row] \<rparr> \<rparr>) \<and>
           translation row = Some (''Simulated translation for '' @ species f)"
proof -
  let ?row = "\<lparr> ar_id = next_id (map ar_id (analysis_results (db v))), audio_file_id = af_id f,
      translation = Some (''Simulated translation for '' @ species f),
      behavioral_tags = Some (if species f = ''canis_lupus''
                              then [''mating_call'', ''territorial''] else [''aggression'']),
      accuracy = Some (85 / 100),
      quality_issues = Some (run_quality_checks noise overlap),
      partial = (noise \<or> overlap), created_at = t \<rparr>"
  have "run_analysis_task c cfg fl t noise overlap fid v =
          (TaskResult (ar_id ?row) (noise \<or> overlap) (Some (85 / 100)),
           v\<lparr> db := (db v)\<lparr> analysis_results := analysis_results (db v) @ [?row] \<rparr> \<rparr>)"
    using sup dbok
    by (simp add: run_analysis_task_def found got add_analysis_result_def Let_def
        run_translation_and_tagging_def run_quality_checks_def dict_get_def)
  then show ?thesis by (intro exI[of _ ?row]) simp
qed

lemma demo_find: "find (\<lambda>a. af_id a = 1) (audio_files (db demo_world)) = Some demo_file"
  by (simp add: demo_world_def demo_file_def)

text \<open>
  Claim C10. The list of \<open>routes/audio_upload.py\<close>, the list of
  \<open>routes/species.py\<close> and the list inside the worker are equal, element for
  element. Hence every row an upload adds has a species of the worker's list, and for a
  file whose species passes \<open>validate_species\<close> the worker, once it has the bytes and
  the commit goes through, takes the model path: the stored translation is not null.
\<close>

theorem uploaded_species_always_analysed:
  "SUPPORTED_SPECIES = worker_species \<and> species_SUPPORTED_SPECIES = worker_species \<and>
   (upload_audio_file c cfg fl uuid now upl sp loc ts p w = (r, w') \<longrightarrow>
      (\<forall>a\<in>set (audio_files (db w')).
          a \<in> set (audio_files (db w)) \<or> species a \<in> set worker_species)) \<and>
   (find (\<lambda>a. af_id a = fid) (audio_files (db v)) = Some f \<and>
    validate_species (species f) = Inr () \<and>
    retrieve_encrypted_audio_file c cfg fl2 (s3_object_key f) (s3 v) = Inr audio_bytes \<and>
    \<not> db_fault fl2 \<longrightarrow>
      (\<exists>row. run_analysis_task c cfg fl2 t noise overlap fid v =
             (TaskResult (ar_id row) (noise \<or> overlap) (Some (85 / 100)),
              v\<lparr> db := (db v)\<lparr> analysis_results := analysis_results (db v) @ [row] \<rparr> \<rparr>) \<and>
           translation row = Some (''Simulated translation for '' @ species f)))"
proof -
  have eq: "SUPPORTED_SPECIES = worker_species"
    by (simp add: SUPPORTED_SPECIES_def worker_species_def)
  have eq2: "species_SUPPORTED_SPECIES = worker_species"
    by (simp add: species_SUPPORTED_SPECIES_def worker_species_def)
  have up: "upload_audio_file c cfg fl uuid now upl sp loc ts p w = (r, w') \<longrightarrow>
      (\<forall>a\<in>set (audio_files (db w')).
          a \<in> set (audio_files (db w)) \<or> species a \<in> set worker_species)"
  proof
    assume h: "upload_audio_file c cfg fl uuid now upl sp loc ts p w = (r, w')"
    from upload_rows_validated[OF h] show "\<forall>a\<in>set (audio_files (db w')).
          a \<in> set (audio_files (db w)) \<or> species a \<in> set worker_species"
      by (auto simp: validate_species_iff eq)
  qed
  have wk: "find (\<lambda>a. af_id a = fid) (audio_files (db v)) = Some f \<and>
    validate_species (species f) = Inr () \<and>
    retrieve_encrypted_audio_file c cfg fl2 (s3_object_key f) (s3 v) = Inr audio_bytes \<and>
    \<not> db_fault fl2 \<longrightarrow>
      (\<exists>row. run_analysis_task c cfg fl2 t noise overlap fid v =
             (TaskResult (ar_id row) (noise \<or> overlap) (Some (85 / 100)),
              v\<lparr> db := (db v)\<lparr> analysis_results := analysis_results (db v) @ [row] \<rparr> \<rparr>) \<and>
           translation row = Some (''Simulated translation for '' @ species f))"
  proof
    assume h: "find (\<lambda>a. af_id a = fid) (audio_files (db v)) = Some f \<and>
      validate_species (species f) = Inr () \<and>
      retrieve_encrypted_audio_file c cfg fl2 (s3_object_key f) (s3 v) = Inr audio_bytes \<and>
      \<not> db_fault fl2"
    then have s: "species f \<in> set worker_species" by (simp add: validate_species_iff eq)
    from h worker_model_path[of fid v f c cfg fl2 audio_bytes t noise overlap] s
    show "\<exists>row. run_analysis_task c cfg fl2 t noise overlap fid v =
             (TaskResult (ar_id row) (noise \<or> overlap) (Some (85 / 100)),
              v\<lparr> db := (db v)\<lparr> analysis_results := analysis_results (db v) @ [row] \<rparr> \<rparr>) \<and>
           translation row = Some (''Simulated translation for '' @ species f)"
      by blast
  qed
  from eq eq2 up wk show ?thesis by blast
qed

theorem uploaded_species_always_analysed_witness:
  "upload_audio_file shift_cipher demo_settings no_faults ''u1'' 100
     \<lparr> filename = ''howl.wav'', content_type = ''audio/wav'', spool_max_size = Some 1048576,
       contents = [1, 2, 3] \<rparr>
     ''canis_lupus'' None None demo_user empty_world =
   (Inr \<lparr> aur_audio_file = demo_file, aur_message = ''Audio file uploaded successfully.'' \<rparr>,
    demo_world) \<and>
   species demo_file \<in> set worker_species \<and>
   find (\<lambda>a. af_id a = 1) (audio_files (db demo_world)) = Some demo_file \<and>
   validate_species (species demo_file) = Inr () \<and>
   retrieve_encrypted_audio_file shift_cipher demo_settings no_faults
     (s3_object_key demo_file) (s3 demo_world) = Inr [1, 2, 3] \<and>
   \<not> db_fault no_faults \<and>
   (\<exists>row. run_analysis_task shift_cipher demo_settings no_faults 200 True False 1 demo_world =
             (TaskResult (ar_id row) (True \<or> False) (Some (85 / 100)),
              demo_world\<lparr> db := (db demo_world)\<lparr> analysis_results :=
                 analysis_results (db demo_world) @ [row] \<rparr> \<rparr>) \<and>
           translation row = Some (''Simulated translation for '' @ species demo_file))"
proof -
  have k: "s3_object_key demo_file = ''audio/canis_lupus/u1_howl.wav''"
    by (simp add: demo_file_def)
  have v: "validate_species (species demo_file) = Inr ()"
    by (simp add: validate_species_def SUPPORTED_SPECIES_def demo_file_def)
  have d: "\<not> db_fault no_faults" by (simp add: no_faults_def)
  have m: "demo_file \<in> set (audio_files (db demo_world))" by (simp add: demo_world_def)
  have e: "demo_file \<notin> set (audio_files (db empty_world))" by (simp add: empty_world_def)
  note t = uploaded_species_always_analysed[where c = shift_cipher and cfg = demo_settings
      and fl = no_faults and uuid = "''u1''" and now = 100
      and upl = "\<lparr> filename = ''howl.wav'', content_type = ''audio/wav'',
                     spool_max_size = Some 1048576, contents = [1, 2, 3] \<rparr>"
      and sp = "''canis_lupus''" and loc = None and ts = None and p = demo_user
      and w = empty_world
      and r = "Inr \<lparr> aur_audio_file = demo_file, aur_message = ''Audio file uploaded successfully.'' \<rparr>"
      and w' = demo_world and fid = 1 and v = demo_world and f = demo_file and ?fl2.0 = no_faults
      and audio_bytes = "[1, 2, 3]" and t = 200 and noise = True and overlap = False]
  from t demo_upload m e have s: "species demo_file \<in> set worker_species" by blast
  from t demo_find v demo_retrieve d k
  have "\<exists>row. run_analysis_task shift_cipher demo_settings no_faults 200 True False 1 demo_world =
             (TaskResult (ar_id row) (True \<or> False) (Some (85 / 100)),
              demo_world\<lparr> db := (db demo_world)\<lparr> analysis_results :=
                 analysis_results (db demo_world) @ [row] \<rparr> \<rparr>) \<and>
           translation row = Some (''Simulated translation for '' @ species demo_file)"
    by simp
  with demo_upload s demo_find v demo_retrieve d k show ?thesis by simp
qed

section \<open>Triggering analysis\<close>

lemma fold_newer_in: "fold newer rs r \<in> set (r # rs)"
proof (induction rs arbitrary: r)
  case Nil
  then show ?case by simp
next
  case (Cons x rs)
  have "fold newer (x # rs) r = fold newer rs (newer x r)" by simp
  moreover have "newer x r = x \<or> newer x r = r" by (simp add: newer_def)
  ultimately show ?case using Cons.IH[of "newer x r"] by auto
qed

lemma fold_newer_ge: "created_at r \<le> created_at (fold newer rs r)"
proof (induction rs arbitrary: r)
  case Nil
  then show ?case by simp
next
  case (Cons x rs)
  have "created_at r \<le> created_at (newer x r)" by (simp add: newer_def)
  then show ?case using Cons.IH[of "newer x r"] by simp
qed

lemma fold_newer_max: "x \<in> set rs \<Longrightarrow> created_at x \<le> created_at (fold newer rs r)"
proof (induction rs arbitrary: r)
  case Nil
  then show ?case by simp
next
  case (Cons y rs)
  show ?case
  proof (cases "x = y")
    case True
    have "created_at y \<le> created_at (newer y r)" by (simp add: newer_def)
    then show ?thesis using True fold_newer_ge[of "newer y r" rs] by simp
  next
    case False
    then show ?thesis using Cons by simp
  qed
qed

lemma latest_analysis_result_None:
  "latest_analysis_result fid d = None \<longleftrightarrow> (\<forall>r\<in>set (analysis_results d). audio_file_id r \<noteq> fid)"
proof -
  have "latest_analysis_result fid d = None \<longleftrightarrow>
        filter (\<lambda>r. audio_file_id r = fid) (analysis_results d) = []"
    by (simp add: latest_analysis_result_def split: list.splits)
  then show ?thesis by (simp add: filter_empty_conv)
qed

lemma latest_analysis_result_Some:
  assumes "latest_analysis_result fid d = Some res"
  shows "res \<in> set (analysis_results d) \<and> audio_file_id res = fid \<and>
         (\<forall>r\<in>set (analysis_results d). audio_file_id r = fid \<longrightarrow> created_at r \<le> created_at res)"
proof -
  let ?xs = "filter (\<lambda>r. audio_file_id r = fid) (analysis_results d)"
  from assms obtain r rs where xs: "?xs = r # rs" and res: "res = fold newer rs r"
    by (auto simp: latest_analysis_result_def split: list.splits)
  have "res \<in> set ?xs" unfolding res xs by (rule fold_newer_in)
  then have a: "res \<in> set (analysis_results d) \<and> audio_file_id res = fid" by simp
  have "\<forall>x\<in>set ?xs. created_at x \<le> created_at res"
    unfolding xs res using fold_newer_ge[of r rs] fold_newer_max[of _ rs r] by auto
  then have "\<forall>r\<in>set (analysis_results d). audio_file_id r = fid \<longrightarrow> created_at r \<le> created_at res"
    by simp
  with a show ?thesis by blast
qed

lemma demo_get_file: "get_audio_file_by_id 1 (Some (db demo_world)) = Some demo_file"
  by (simp add: get_audio_file_by_id_def demo_world_def demo_file_def)

lemma trigger_response_after_enqueue:
  assumes "get_audio_file_by_id fid (Some (db w)) = Some file"
    and "uploader_id file = u_id p"
    and "latest_analysis_result fid (db w) = None" and "\<not> broker_fault fl"
  shows "fst (trigger_audio_analysis fl fid p w) = Inl PydanticValidationError"
  using assms
  by (simp add: trigger_audio_analysis_def delay_def AnalysisResponse_def)

text \<open>
  Claim C1, as the specification states it, fails: the handler keeps no record of a
  started job. Two trigger calls for the same file, with no result stored in between,
  put two tasks on the queue.
\<close>

theorem two_triggers_two_tasks:
  "celery_queue (snd (trigger_audio_analysis no_faults 1 demo_user
      (snd (trigger_audio_analysis no_faults 1 demo_user demo_world)))) = [1, 1] \<and>
   celery_queue demo_world = []"
  by (simp add: trigger_audio_analysis_def get_audio_file_by_id_def demo_world_def demo_file_def
      demo_user_def latest_analysis_result_def delay_def no_faults_def AnalysisResponse_def)

text \<open>
  Claim C1, amended. For a file the caller owns: once a result row exists for the file,
  a trigger call enqueues nothing, leaves the state as it is and answers with the latest
  stored result; while no result row exists, each trigger call on a reachable broker
  appends one task for the file to the queue, and on a broker fault it answers 500 and
  changes nothing. The only check is the query for a stored result.
\<close>

theorem trigger_idempotent_once_result_stored:
  assumes "get_audio_file_by_id fid (Some (db w)) = Some file"
    and "uploader_id file = u_id p"
  shows "(latest_analysis_result fid (db w) = Some res \<longrightarrow>
            snd (trigger_audio_analysis fl fid p w) = w \<and>
            (AnalysisResultRead_from_orm res = Inr res \<longrightarrow>
               fst (trigger_audio_analysis fl fid p w) =
                 Inr \<lparr> resp_analysis_result = res, resp_message = ''Analysis already completed.'' \<rparr>)) \<and>
         (latest_analysis_result fid (db w) = None \<and> \<not> broker_fault fl \<longrightarrow>
            snd (trigger_audio_analysis fl fid p w) = w\<lparr> celery_queue := celery_queue w @ [fid] \<rparr>) \<and>
         (latest_analysis_result fid (db w) = None \<and> broker_fault fl \<longrightarrow>
            trigger_audio_analysis fl fid p w =
              (Inl (HTTPException 500 ''Failed to trigger ML analysis.''), w))"
  using assms
  by (auto simp: trigger_audio_analysis_def delay_def AnalysisResponse_def split: sum.splits)

theorem trigger_idempotent_once_result_stored_witness:
  "get_audio_file_by_id 1 (Some (db demo_world)) = Some demo_file \<and>
   uploader_id demo_file = u_id demo_user \<and>
   latest_analysis_result 1 (db demo_world) = None \<and> \<not> broker_fault no_faults \<and>
   snd (trigger_audio_analysis no_faults 1 demo_user demo_world) =
     demo_world\<lparr> celery_queue := celery_queue demo_world @ [1] \<rparr>"
proof -
  have o: "uploader_id demo_file = u_id demo_user" by (simp add: demo_file_def demo_user_def)
  have l: "latest_analysis_result 1 (db demo_world) = None"
    by (simp add: latest_analysis_result_def demo_world_def)
  have b: "\<not> broker_fault no_faults" by (simp add: no_faults_def)
  show ?thesis
    using trigger_idempotent_once_result_stored[OF demo_get_file o, where fl = no_faults] demo_get_file o l b
    by blast
qed

end
